theory Spec2Isabelle
  imports Complex_Main
begin

section \<open>Data model\<close>

text \<open>
  The types of the client (\<^verbatim>\<open>Message\<close>, \<^verbatim>\<open>GenerationResult\<close>, \<^verbatim>\<open>Settings\<close>,
  \<^verbatim>\<open>AgentActivity\<close>). An optional field \<^verbatim>\<open>f?: T\<close> is a \<open>T option\<close>, \<open>None\<close> standing
  for \<^verbatim>\<open>undefined\<close>. A JavaScript \<^verbatim>\<open>number\<close> read from JSON is a \<open>real\<close>. Strings are
  the UTF-8 bytes of the text; the four emoji used by the page are written as their bytes.
\<close>

type_synonym number = real

datatype role = User | Assistant

record message =
  msg_id :: string
  msg_role :: role
  msg_content :: string
  msg_timestamp :: nat
  msg_loading :: "bool option"

datatype activity_status = Running | Completed | Failed

record AgentActivity =
  act_agent :: string
  act_status :: activity_status
  act_message :: string
  act_timestamp :: string

text \<open>
  \<^verbatim>\<open>GenerationResult\<close>; the field \<open>r_activities\<close> is the \<^verbatim>\<open>activities\<close> member of the
  \<^verbatim>\<open>/generate\<close> response that \<^verbatim>\<open>handleSubmitPrompt\<close> reads.
\<close>

record GenerationResult =
  r_success :: bool
  r_code :: "string option"
  r_error :: "string option"
  r_attempts :: "number option"
  r_quality_score :: "number option"
  r_execution_time :: "number option"
  r_errors_fixed :: "string list option"
  r_updates :: "string list option"
  r_activities :: "AgentActivity list option"

text \<open>
  The object stored under \<^verbatim>\<open>pineForgeSettings\<close>. A member that is missing (or \<^verbatim>\<open>null\<close>)
  is \<open>None\<close>.
\<close>

record Settings =
  apiKey :: "string option"
  temperature :: "number option"
  maxAttempts :: "number option"

text \<open>The requests that reach \<^verbatim>\<open>apiClient\<close>, with their arguments.\<close>

datatype call =
    GenerateScript string string number number
  | SubmitFeedback string bool "string option"
  | GetActivities

text \<open>
  A promise settles by resolving with a value or by rejecting with a thrown value; the
  handlers only ask of a thrown value whether it is an \<^verbatim>\<open>Error\<close> and, if so, its message.
\<close>

datatype thrown = ErrorObj string | OtherValue

datatype 'a settled = Resolved 'a | Rejected thrown

text \<open>
  The state of the \<^verbatim>\<open>Generator\<close> component: its six state variables, and what lives
  outside React state: whether the polling interval is armed, the log of requests
  issued so far, the \<^verbatim>\<open>loadingMessage.id\<close> captured by each \<^verbatim>\<open>generateScript\<close> promise that
  has not settled, the number of \<^verbatim>\<open>getActivities\<close> promises that have not settled, and the
  \<^verbatim>\<open>works\<close> argument captured by each \<^verbatim>\<open>submitFeedback\<close> promise that has not settled.
\<close>

record session =
  messages :: "message list"
  loading :: bool
  lastGenerationResult :: "GenerationResult option"
  feedbackSubmitted :: bool
  error :: "string option"
  activities :: "AgentActivity list"
  interval_on :: bool
  requests :: "call list"
  awaiting_generate :: "string list"
  awaiting_activities :: nat
  awaiting_feedback :: "bool list"

definition initial :: session where
  "initial = \<lparr>messages = [], loading = False, lastGenerationResult = None,
     feedbackSubmitted = False, error = None, activities = [], interval_on = False,
     requests = [], awaiting_generate = [], awaiting_activities = 0,
     awaiting_feedback = []\<rparr>"

section \<open>Strings\<close>

text \<open>Decimal rendering of \<^verbatim>\<open>Date.now()\<close>, as \<^verbatim>\<open>toString()\<close> and template literals do.\<close>

definition digit :: "nat \<Rightarrow> char" where
  "digit d = char_of (48 + d)"

function toString :: "nat \<Rightarrow> string" where
  "toString n = (if n < 10 then [digit n] else toString (n div 10) @ [digit (n mod 10)])"
  by pat_completeness auto
termination
  by (relation "measure id") auto

declare toString.simps [simp del]

text \<open>JavaScript truthiness of an optional string: \<^verbatim>\<open>undefined\<close> and \<^verbatim>\<open>''\<close> are falsy.\<close>

fun truthy :: "string option \<Rightarrow> bool" where
  "truthy None = False"
| "truthy (Some v) = (v \<noteq> [])"

text \<open>\<^verbatim>\<open>x || d\<close> on an optional number: \<^verbatim>\<open>undefined\<close>, \<^verbatim>\<open>null\<close> and \<^verbatim>\<open>0\<close> are falsy.\<close>

fun number_or :: "number option \<Rightarrow> number \<Rightarrow> number" where
  "number_or None d = d"
| "number_or (Some x) d = (if x = 0 then d else x)"

text \<open>An optional string inside a template literal.\<close>

fun template :: "string option \<Rightarrow> string" where
  "template None = ''undefined''"
| "template (Some v) = v"

text \<open>\<^verbatim>\<open>x || d\<close> on an optional string.\<close>

fun string_or :: "string option \<Rightarrow> string \<Rightarrow> string" where
  "string_or None d = d"
| "string_or (Some x) d = (if x = [] then d else x)"

text \<open>
  \<^verbatim>\<open>String.prototype.trim\<close>. It strips, at both ends, the code points that ECMAScript
  calls white space or line terminators: U+0009 to U+000D, U+0020, U+00A0, U+1680,
  U+2000 to U+200A, U+2028, U+2029, U+202F, U+205F, U+3000 and U+FEFF. \<open>white_space\<close>
  lists their UTF-8 encodings. \<open>strip_leading ws\<close> removes from the front of a string
  every leading occurrence of a member of \<open>ws\<close>; the end of the string is trimmed on the
  reversed bytes.
\<close>

definition white_space :: "string list" where
  "white_space =
     [[CHR 0x09], [CHR 0x0A], [CHR 0x0B], [CHR 0x0C], [CHR 0x0D], [CHR 0x20],
      [CHR 0xC2, CHR 0xA0], [CHR 0xE1, CHR 0x9A, CHR 0x80],
      [CHR 0xE2, CHR 0x80, CHR 0x80], [CHR 0xE2, CHR 0x80, CHR 0x81],
      [CHR 0xE2, CHR 0x80, CHR 0x82], [CHR 0xE2, CHR 0x80, CHR 0x83],
      [CHR 0xE2, CHR 0x80, CHR 0x84], [CHR 0xE2, CHR 0x80, CHR 0x85],
      [CHR 0xE2, CHR 0x80, CHR 0x86], [CHR 0xE2, CHR 0x80, CHR 0x87],
      [CHR 0xE2, CHR 0x80, CHR 0x88], [CHR 0xE2, CHR 0x80, CHR 0x89],
      [CHR 0xE2, CHR 0x80, CHR 0x8A], [CHR 0xE2, CHR 0x80, CHR 0xA8],
      [CHR 0xE2, CHR 0x80, CHR 0xA9], [CHR 0xE2, CHR 0x80, CHR 0xAF],
      [CHR 0xE2, CHR 0x81, CHR 0x9F], [CHR 0xE3, CHR 0x80, CHR 0x80],
      [CHR 0xEF, CHR 0xBB, CHR 0xBF]]"

function strip_leading :: "string list \<Rightarrow> string \<Rightarrow> string" where
  "strip_leading ws s =
     (case find (\<lambda>w. w \<noteq> [] \<and> take (length w) s = w) ws of
        None \<Rightarrow> s
      | Some w \<Rightarrow> strip_leading ws (drop (length w) s))"
  by pat_completeness auto
termination
proof (relation "measure (\<lambda>(ws, s). length s)")
  show "wf (measure (\<lambda>(ws, s). length s))" by simp
next
  fix ws :: "string list" and s w :: string
  assume "find (\<lambda>w. w \<noteq> [] \<and> take (length w) s = w) ws = Some w"
  then have w: "w \<noteq> []" "take (length w) s = w" by (auto simp: find_Some_iff)
  then have "s \<noteq> []" by auto
  with w(1) show "((ws, drop (length w) s), (ws, s)) \<in> measure (\<lambda>(ws, s). length s)"
    by simp
qed

declare strip_leading.simps [simp del]

definition trimStart :: "string \<Rightarrow> string" where
  "trimStart s = strip_leading white_space s"

definition trimEnd :: "string \<Rightarrow> string" where
  "trimEnd s = rev (strip_leading (map rev white_space) (rev s))"

definition trim :: "string \<Rightarrow> string" where
  "trim s = trimEnd (trimStart s)"

definition check_mark :: string where
  "check_mark = [CHR 0xE2, CHR 0x9C, CHR 0x85]"

definition cross_mark :: string where
  "cross_mark = [CHR 0xE2, CHR 0x9D, CHR 0x8C]"

definition sparkles :: string where
  "sparkles = [CHR 0xE2, CHR 0x9C, CHR 0xA8]"

definition light_bulb :: string where
  "light_bulb = [CHR 0xF0, CHR 0x9F, CHR 0x92, CHR 0xA1]"

definition newline :: string where
  "newline = [CHR 0x0A]"

definition fence :: string where
  "fence = [CHR 0x60, CHR 0x60, CHR 0x60]"

section \<open>The Generator page\<close>

text \<open>
  \<^verbatim>\<open>const apiKey = localStorage.getItem('pineForgeSettings')
     ? JSON.parse(localStorage.getItem('pineForgeSettings')!).apiKey : ''\<close>:
  the stored item is \<open>None\<close> when there is none (or it is the empty string).
\<close>

definition render_apiKey :: "Settings option \<Rightarrow> string option" where
  "render_apiKey stored = (case stored of None \<Rightarrow> Some [] | Some st \<Rightarrow> apiKey st)"

text \<open>\<^verbatim>\<open>JSON.parse(localStorage.getItem('pineForgeSettings') || '{}')\<close>.\<close>

definition read_settings :: "Settings option \<Rightarrow> Settings" where
  "read_settings stored = (case stored of
     None \<Rightarrow> \<lparr>apiKey = None, temperature = None, maxAttempts = None\<rparr>
   | Some st \<Rightarrow> st)"

text \<open>
  The effect with dependency \<^verbatim>\<open>[loading]\<close>: when a commit changes \<^verbatim>\<open>loading\<close>, the cleanup
  of the previous run clears the interval and the new run arms it if \<^verbatim>\<open>loading\<close> is true.
  \<open>prev\<close> is the value of \<^verbatim>\<open>loading\<close> at the previous commit.
\<close>

definition useEffect_loading :: "bool \<Rightarrow> session \<Rightarrow> session" where
  "useEffect_loading prev s = (if loading s = prev then s else s\<lparr>interval_on := loading s\<rparr>)"

definition config_error_text :: string where
  "config_error_text = ''Please add your API key in Settings to start.''"

text \<open>
  \<^verbatim>\<open>handleSubmitPrompt\<close> up to its \<^verbatim>\<open>await\<close>. A clock reading is the pair
  (\<^verbatim>\<open>Date.now()\<close>, \<^verbatim>\<open>new Date()\<close>) taken when a message is built: \<open>t1\<close> for the user
  message, \<open>t2\<close> for the second message.
\<close>

definition missing_key_branch :: "nat \<times> nat \<Rightarrow> session \<Rightarrow> session" where
  "missing_key_branch t2 s =
     (let errorMsg = config_error_text;
          assistantMessage = \<lparr>msg_id = ''error-'' @ toString (fst t2), msg_role = Assistant,
             msg_content = errorMsg, msg_timestamp = snd t2, msg_loading = None\<rparr>
      in s\<lparr>error := Some errorMsg, messages := messages s @ [assistantMessage]\<rparr>)"

definition generate_branch ::
  "string \<Rightarrow> Settings option \<Rightarrow> string \<Rightarrow> nat \<times> nat \<Rightarrow> session \<Rightarrow> session" where
  "generate_branch k stored prompt t2 s =
     (let loadingMessage = \<lparr>msg_id = ''loading-'' @ toString (fst t2), msg_role = Assistant,
             msg_content = ''Generating your Pine Script...'', msg_timestamp = snd t2,
             msg_loading = Some True\<rparr>;
          s3 = s\<lparr>messages := messages s @ [loadingMessage], loading := True, activities := []\<rparr>;
          settings = read_settings stored
      in s3\<lparr>requests := requests s3 @
                [GenerateScript prompt k (number_or (temperature settings) 0.6)
                   (number_or (maxAttempts settings) 5)],
              awaiting_generate := awaiting_generate s3 @ [msg_id loadingMessage]\<rparr>)"

definition handleSubmitPrompt_start ::
  "string option \<Rightarrow> Settings option \<Rightarrow> string \<Rightarrow> nat \<times> nat \<Rightarrow> nat \<times> nat \<Rightarrow> session \<Rightarrow> session" where
  "handleSubmitPrompt_start key stored prompt t1 t2 s =
     (let s1 = s\<lparr>error := None, feedbackSubmitted := False, lastGenerationResult := None\<rparr>;
          userMessage = \<lparr>msg_id = toString (fst t1), msg_role = User, msg_content = prompt,
                          msg_timestamp = snd t1, msg_loading = None\<rparr>;
          s2 = s1\<lparr>messages := messages s1 @ [userMessage]\<rparr>
      in useEffect_loading (loading s)
           (case key of
              None \<Rightarrow> missing_key_branch t2 s2
            | Some k \<Rightarrow> if k = [] then missing_key_branch t2 s2
                        else generate_branch k stored prompt t2 s2))"

text \<open>
  The \<^verbatim>\<open>catch\<close> block of \<^verbatim>\<open>handleSubmitPrompt\<close>; \<open>lid\<close> is \<^verbatim>\<open>loadingMessage.id\<close>.
\<close>

definition catch_generate :: "string \<Rightarrow> thrown \<Rightarrow> nat \<times> nat \<Rightarrow> session \<Rightarrow> session" where
  "catch_generate lid err t s =
     (let errorMessage = (case err of ErrorObj m \<Rightarrow> m | OtherValue \<Rightarrow> ''An error occurred'');
          s1 = s\<lparr>error := Some errorMessage\<rparr>;
          s2 = s1\<lparr>messages := filter (\<lambda>m. msg_id m \<noteq> lid) (messages s1)\<rparr>;
          errorMsg = \<lparr>msg_id = ''error-'' @ toString (fst t), msg_role = Assistant,
             msg_content = cross_mark @ '' '' @ errorMessage, msg_timestamp = snd t,
             msg_loading = None\<rparr>
      in s2\<lparr>messages := messages s2 @ [errorMsg]\<rparr>)"

text \<open>The \<^verbatim>\<open>try\<close> block after the \<^verbatim>\<open>await\<close> has resolved with \<open>result\<close>.\<close>

definition success_content :: "string \<Rightarrow> string" where
  "success_content c = check_mark @ '' Generated successfully!'' @ newline @ newline @
     fence @ ''pine'' @ newline @ c @ newline @ fence"

definition try_resolved :: "string \<Rightarrow> GenerationResult \<Rightarrow> nat \<times> nat \<Rightarrow> session \<Rightarrow> session" where
  "try_resolved lid result t s =
     (let s1 = (case r_activities result of None \<Rightarrow> s | Some a \<Rightarrow> s\<lparr>activities := a\<rparr>);
          s2 = s1\<lparr>messages := filter (\<lambda>m. msg_id m \<noteq> lid) (messages s1)\<rparr>
      in if r_success result \<and> truthy (r_code result) then
           (let successMsg = \<lparr>msg_id = ''success-'' @ toString (fst t), msg_role = Assistant,
                   msg_content = success_content (template (r_code result)),
                   msg_timestamp = snd t, msg_loading = None\<rparr>
            in s2\<lparr>messages := messages s2 @ [successMsg], lastGenerationResult := Some result\<rparr>)
         else
           catch_generate lid (ErrorObj (string_or (r_error result) ''Failed to generate'')) t s2)"

text \<open>
  \<^verbatim>\<open>handleSubmitPrompt\<close> from the moment its \<^verbatim>\<open>generateScript\<close> promise settles: the rest
  of \<^verbatim>\<open>try\<close>, or \<^verbatim>\<open>catch\<close>, then \<^verbatim>\<open>finally\<close>, then the commit with its effect.
\<close>

definition handleSubmitPrompt_settle ::
  "string \<Rightarrow> GenerationResult settled \<Rightarrow> nat \<times> nat \<Rightarrow> session \<Rightarrow> session" where
  "handleSubmitPrompt_settle lid outcome t s =
     (let s0 = s\<lparr>awaiting_generate := remove1 lid (awaiting_generate s)\<rparr>;
          s1 = (case outcome of
                  Resolved result \<Rightarrow> try_resolved lid result t s0
                | Rejected err \<Rightarrow> catch_generate lid err t s0)
      in useEffect_loading (loading s) (s1\<lparr>loading := False\<rparr>))"

text \<open>
  The poller. \<open>interval_fires\<close> is one firing of the interval while it is armed:
  \<^verbatim>\<open>pollActivities\<close> runs up to its \<^verbatim>\<open>await\<close>. \<open>pollActivities_settle\<close> is the rest of
  \<^verbatim>\<open>pollActivities\<close> for one pending \<^verbatim>\<open>getActivities\<close> promise: a resolved response is
  written with \<^verbatim>\<open>setActivities\<close>, a rejection is logged to the console only.
\<close>

definition interval_fires :: "session \<Rightarrow> session" where
  "interval_fires s =
     (if interval_on s
      then s\<lparr>requests := requests s @ [GetActivities],
             awaiting_activities := Suc (awaiting_activities s)\<rparr>
      else s)"

definition pollActivities_settle :: "AgentActivity list settled \<Rightarrow> session \<Rightarrow> session" where
  "pollActivities_settle response s =
     (if awaiting_activities s = 0 then s
      else (let s1 = s\<lparr>awaiting_activities := awaiting_activities s - 1\<rparr>
            in case response of
                 Resolved acts \<Rightarrow> s1\<lparr>activities := acts\<rparr>
               | Rejected err \<Rightarrow> s1))"

text \<open>
  \<^verbatim>\<open>handleSubmitFeedback\<close>, split at its \<^verbatim>\<open>await\<close> like \<^verbatim>\<open>handleSubmitPrompt\<close>.
  \<open>feedback_code\<close> is \<^verbatim>\<open>lastGenerationResult?.code\<close>. The first part checks it and issues
  the request; the second part runs when the \<^verbatim>\<open>submitFeedback\<close> promise settles (the
  response body is not read). \<open>handleSubmitFeedback\<close> is one whole execution of the
  handler, with the outcome of its promise.
\<close>

definition feedback_code :: "session \<Rightarrow> string option" where
  "feedback_code s = (case lastGenerationResult s of None \<Rightarrow> None | Some r \<Rightarrow> r_code r)"

definition handleSubmitFeedback_start :: "bool \<Rightarrow> string option \<Rightarrow> session \<Rightarrow> session" where
  "handleSubmitFeedback_start works reason s =
     (case feedback_code s of
        None \<Rightarrow> s
      | Some c \<Rightarrow>
          if c = [] then s
          else s\<lparr>requests := requests s @ [SubmitFeedback c works reason],
                 awaiting_feedback := awaiting_feedback s @ [works]\<rparr>)"

definition handleSubmitFeedback_settle ::
  "bool \<Rightarrow> unit settled \<Rightarrow> nat \<times> nat \<Rightarrow> session \<Rightarrow> session" where
  "handleSubmitFeedback_settle works outcome t s =
     (let s1 = s\<lparr>awaiting_feedback := remove1 works (awaiting_feedback s)\<rparr>
      in case outcome of
           Resolved u \<Rightarrow>
             (let feedbackMsg = \<lparr>msg_id = ''feedback-'' @ toString (fst t),
                     msg_role = Assistant,
                     msg_content = (if works then sparkles @ '' Thanks for the feedback!''
                        else light_bulb @ '' Thank you for reporting this.''),
                     msg_timestamp = snd t, msg_loading = None\<rparr>
              in s1\<lparr>feedbackSubmitted := True, messages := messages s1 @ [feedbackMsg]\<rparr>)
         | Rejected err \<Rightarrow>
             s1\<lparr>error := Some (case err of ErrorObj m \<Rightarrow> m
                                | OtherValue \<Rightarrow> ''Failed to submit feedback'')\<rparr>)"

definition handleSubmitFeedback ::
  "bool \<Rightarrow> string option \<Rightarrow> unit settled \<Rightarrow> nat \<times> nat \<Rightarrow> session \<Rightarrow> session" where
  "handleSubmitFeedback works reason outcome t s =
     (if truthy (feedback_code s)
      then handleSubmitFeedback_settle works outcome t (handleSubmitFeedback_start works reason s)
      else s)"

section \<open>The input and feedback components\<close>

text \<open>
  \<^verbatim>\<open>ChatInput.handleSubmit\<close>: the component's own state is the text \<open>input\<close>; the result is
  the session after \<^verbatim>\<open>onSubmit\<close> and the new text.
\<close>

definition ChatInput_handleSubmit ::
  "(string \<Rightarrow> session \<Rightarrow> session) \<Rightarrow> bool \<Rightarrow> bool \<Rightarrow> string \<Rightarrow> session \<Rightarrow> session \<times> string" where
  "ChatInput_handleSubmit onSubmit disabled is_loading input s =
     (if trim input \<noteq> [] \<and> \<not> disabled \<and> \<not> is_loading then (onSubmit input s, [])
      else (s, input))"

text \<open>
  The page's \<^verbatim>\<open><ChatInput onSubmit={handleSubmitPrompt} disabled={!apiKey} loading={loading} />\<close>.
\<close>

definition submit_prompt ::
  "string option \<Rightarrow> Settings option \<Rightarrow> nat \<times> nat \<Rightarrow> nat \<times> nat \<Rightarrow> string \<Rightarrow> session \<Rightarrow> session \<times> string" where
  "submit_prompt key stored t1 t2 input s =
     ChatInput_handleSubmit (\<lambda>prompt. handleSubmitPrompt_start key stored prompt t1 t2)
       (\<not> truthy key) (loading s) input s"

text \<open>
  \<^verbatim>\<open>FeedbackForm\<close>: its state, its handlers, and the \<^verbatim>\<open>disabled\<close> attribute of its submit
  button. The form is submitted through that button, so \<open>submit_detail\<close> runs
  \<^verbatim>\<open>handleDetailedSubmit\<close> only while the detail form is shown and the button is enabled.
\<close>

record feedback_form =
  showDetailForm :: bool
  reason :: string

definition handlePositiveFeedback ::
  "(bool \<Rightarrow> string option \<Rightarrow> session \<Rightarrow> session) \<Rightarrow> feedback_form \<Rightarrow> session \<Rightarrow> session \<times> feedback_form" where
  "handlePositiveFeedback onSubmitFeedback f s =
     (onSubmitFeedback True None s, \<lparr>showDetailForm = False, reason = []\<rparr>)"

definition handleDetailedSubmit ::
  "(bool \<Rightarrow> string option \<Rightarrow> session \<Rightarrow> session) \<Rightarrow> feedback_form \<Rightarrow> session \<Rightarrow> session \<times> feedback_form" where
  "handleDetailedSubmit onSubmitFeedback f s =
     (onSubmitFeedback False (Some (reason f)) s, \<lparr>showDetailForm = False, reason = []\<rparr>)"

definition submit_button_disabled :: "bool \<Rightarrow> feedback_form \<Rightarrow> bool" where
  "submit_button_disabled is_loading f = (is_loading \<or> trim (reason f) = [])"

definition submit_detail ::
  "(bool \<Rightarrow> string option \<Rightarrow> session \<Rightarrow> session) \<Rightarrow> bool \<Rightarrow> feedback_form \<Rightarrow> session \<Rightarrow> session \<times> feedback_form" where
  "submit_detail onSubmitFeedback is_loading f s =
     (if showDetailForm f \<and> \<not> submit_button_disabled is_loading f
      then handleDetailedSubmit onSubmitFeedback f s
      else (s, f))"

text \<open>
  The page's
  \<^verbatim>\<open>{lastGenerationResult && !feedbackSubmitted && (<FeedbackForm
     onSubmitFeedback={handleSubmitFeedback} loading={loading} />)}\<close>: submitting the
  detail form of the page, up to the \<^verbatim>\<open>await\<close> of the handler.
\<close>

definition FeedbackForm_rendered :: "session \<Rightarrow> bool" where
  "FeedbackForm_rendered s = (lastGenerationResult s \<noteq> None \<and> \<not> feedbackSubmitted s)"

definition feedback_detail :: "feedback_form \<Rightarrow> session \<Rightarrow> session \<times> feedback_form" where
  "feedback_detail f s =
     (if FeedbackForm_rendered s then submit_detail handleSubmitFeedback_start (loading s) f s
      else (s, f))"

section \<open>Runs of the page\<close>

text \<open>
  What can happen to a mounted page, one event at a time: the user submits the text of
  the input box; an outstanding \<^verbatim>\<open>generateScript\<close> promise settles; the interval fires; an
  outstanding \<^verbatim>\<open>getActivities\<close> promise settles; \<^verbatim>\<open>handleSubmitFeedback\<close> is called and
  runs up to its \<^verbatim>\<open>await\<close>; an outstanding \<^verbatim>\<open>submitFeedback\<close> promise settles. Settings
  and clock readings are arbitrary at every event.
\<close>

datatype event =
    UserSubmits "string option" "Settings option" "nat \<times> nat" "nat \<times> nat" string
  | GenerateSettles string "GenerationResult settled" "nat \<times> nat"
  | IntervalFires
  | ActivitiesSettle "AgentActivity list settled"
  | FeedbackStarts bool "string option"
  | FeedbackSettles bool "unit settled" "nat \<times> nat"

fun fire :: "event \<Rightarrow> session \<Rightarrow> session" where
  "fire (UserSubmits key stored t1 t2 input) s = fst (submit_prompt key stored t1 t2 input s)"
| "fire (GenerateSettles lid outcome t) s =
     (if lid \<in> set (awaiting_generate s) then handleSubmitPrompt_settle lid outcome t s else s)"
| "fire IntervalFires s = interval_fires s"
| "fire (ActivitiesSettle response) s = pollActivities_settle response s"
| "fire (FeedbackStarts works why) s = handleSubmitFeedback_start works why s"
| "fire (FeedbackSettles works outcome t) s =
     (if works \<in> set (awaiting_feedback s) then handleSubmitFeedback_settle works outcome t s
      else s)"

inductive reachable :: "session \<Rightarrow> bool" where
  start: "reachable initial"
| step: "reachable s \<Longrightarrow> reachable (fire e s)"



text \<open>
  A \<^verbatim>\<open>generateScript\<close> promise settles unsuccessfully when it resolves with
  \<^verbatim>\<open>success: false\<close> or rejects.
\<close>

fun settles_unsuccessfully :: "GenerationResult settled \<Rightarrow> bool" where
  "settles_unsuccessfully (Resolved r) = (\<not> r_success r)"
| "settles_unsuccessfully (Rejected err) = True"

section \<open>An invariant of the runs\<close>

text \<open>
  A message id built by \<^verbatim>\<open>`loading-${Date.now()}`\<close> is recognised by its prefix.
\<close>

definition pending_id :: "string \<Rightarrow> bool" where
  "pending_id i = (take 8 i = ''loading-'')"

text \<open>
  In every state of a run: the placeholder turns in the conversation are those of the
  outstanding \<^verbatim>\<open>generateScript\<close> promises, of which there is at most one; \<^verbatim>\<open>loading\<close> says
  whether there is one; the interval is armed exactly while \<^verbatim>\<open>loading\<close>; while \<^verbatim>\<open>loading\<close>
  there is no current result; a turn carries \<^verbatim>\<open>loading: true\<close> exactly when its id is a
  placeholder id; and a current result is a successful one with non-empty code.
\<close>

definition session_inv :: "session \<Rightarrow> bool" where
  "session_inv s \<longleftrightarrow>
     map msg_id (filter (\<lambda>m. pending_id (msg_id m)) (messages s)) = awaiting_generate s \<and>
     length (awaiting_generate s) \<le> 1 \<and>
     loading s = (awaiting_generate s \<noteq> []) \<and>
     interval_on s = loading s \<and>
     (loading s \<longrightarrow> lastGenerationResult s = None) \<and>
     (\<forall>m\<in>set (messages s). (msg_loading m = Some True) = pending_id (msg_id m)) \<and>
     (case lastGenerationResult s of None \<Rightarrow> True
      | Some r \<Rightarrow> r_success r \<and> truthy (r_code r))"

section \<open>Example runs\<close>

definition example_lid :: string where
  "example_lid = ''loading-'' @ toString 1001"

definition example_submitted :: session where
  "example_submitted =
     fire (UserSubmits (Some ''nvapi-1'') None (1000, 1000) (1001, 1002) ''RSI scalper'') initial"

definition example_polling :: session where
  "example_polling = fire IntervalFires example_submitted"

definition example_success :: GenerationResult where
  "example_success = \<lparr>r_success = True, r_code = Some ''strategy(...)'', r_error = None,
     r_attempts = Some 3, r_quality_score = Some 91, r_execution_time = None,
     r_errors_fixed = None, r_updates = None, r_activities = None\<rparr>"

definition example_failure :: GenerationResult where
  "example_failure = \<lparr>r_success = False, r_code = None, r_error = Some ''syntax error'',
     r_attempts = None, r_quality_score = None, r_execution_time = None,
     r_errors_fixed = None, r_updates = None, r_activities = None\<rparr>"

definition example_no_code :: GenerationResult where
  "example_no_code = \<lparr>r_success = True, r_code = None, r_error = Some [],
     r_attempts = None, r_quality_score = None, r_execution_time = None,
     r_errors_fixed = None, r_updates = None, r_activities = None\<rparr>"

definition example_activity :: AgentActivity where
  "example_activity = \<lparr>act_agent = ''Gamma'', act_status = Running,
     act_message = ''Writing code'', act_timestamp = ''12:00:01''\<rparr>"

definition example_done :: session where
  "example_done = fire (GenerateSettles example_lid (Resolved example_success) (2000, 2001))
     example_polling"

definition example_failed :: session where
  "example_failed = fire (GenerateSettles example_lid (Resolved example_failure) (2000, 2001))
     example_polling"





section \<open>Auxiliary facts\<close>

lemma digit_not_l: "d < 10 \<Longrightarrow> digit d \<noteq> CHR ''l''"
proof
  assume d: "d < 10" and e: "digit d = CHR ''l''"
  then have "of_char (char_of (48 + d)) = (of_char (CHR ''l'') :: nat)" by (simp add: digit_def)
  with d show False by simp
qed

lemma toString_hd: "\<exists>d cs. d < 10 \<and> toString n = digit d # cs"
proof (induction n rule: toString.induct)
  case (1 n)
  show ?case
  proof (cases "n < 10")
    case True
    then show ?thesis by (subst toString.simps) auto
  next
    case False
    with 1 obtain d cs where "d < 10" "toString (n div 10) = digit d # cs" by auto
    with False show ?thesis by (subst toString.simps) auto
  qed
qed

lemma pending_id_toString [simp]: "\<not> pending_id (toString n)"
  using toString_hd[of n] digit_not_l by (auto simp: pending_id_def)

lemma pending_id_loading [simp]:
  "pending_id (CHR ''l'' # CHR ''o'' # CHR ''a'' # CHR ''d'' # CHR ''i'' # CHR ''n'' #
     CHR ''g'' # CHR ''-'' # x)"
  by (simp add: pending_id_def)

lemma pending_id_other [simp]: "c \<noteq> CHR ''l'' \<Longrightarrow> \<not> pending_id (c # x)"
  by (simp add: pending_id_def)

lemma single_split:
  assumes "map f (filter (\<lambda>m. P (f m)) xs) = [k]"
  shows "\<exists>pre p post. xs = pre @ p # post \<and> f p = k \<and> P k \<and>
           (\<forall>m\<in>set (pre @ post). \<not> P (f m))"
  using assms
proof (induction xs)
  case Nil
  then show ?case by simp
next
  case (Cons x xs)
  show ?case
  proof (cases "P (f x)")
    case True
    with Cons.prems have fx: "f x = k" and rest: "filter (\<lambda>m. P (f m)) xs = []" by auto
    from rest have "\<forall>m\<in>set xs. \<not> P (f m)" by (simp add: filter_empty_conv)
    with True fx have "x # xs = [] @ x # xs \<and> f x = k \<and> P k \<and> (\<forall>m\<in>set ([] @ xs). \<not> P (f m))"
      by auto
    then show ?thesis by blast
  next
    case False
    with Cons.prems have "map f (filter (\<lambda>m. P (f m)) xs) = [k]" by simp
    from Cons.IH[OF this] obtain pre p post where
      h: "xs = pre @ p # post" "f p = k" "P k" "\<forall>m\<in>set (pre @ post). \<not> P (f m)" by blast
    with False have "x # xs = (x # pre) @ p # post \<and> f p = k \<and> P k \<and>
        (\<forall>m\<in>set ((x # pre) @ post). \<not> P (f m))" by auto
    then show ?thesis by blast
  qed
qed

lemma filter_away:
  assumes "xs = pre @ p # post" "f p = k" "P k" "\<forall>m\<in>set (pre @ post). \<not> P (f m)"
  shows "filter (\<lambda>m. f m \<noteq> k) xs = pre @ post"
proof -
  have "\<forall>m\<in>set (pre @ post). f m \<noteq> k" using assms(3,4) by auto
  then have "filter (\<lambda>m. f m \<noteq> k) pre = pre" "filter (\<lambda>m. f m \<noteq> k) post = post"
    by (auto simp: filter_id_conv)
  with assms(1,2) show ?thesis by simp
qed

lemma inv_initial: "session_inv initial"
  by (simp add: session_inv_def initial_def)

lemma inv_start:
  assumes "session_inv s" "\<not> loading s"
  shows "session_inv (handleSubmitPrompt_start key stored prompt t1 t2 s)"
  using assms
  by (auto simp: session_inv_def handleSubmitPrompt_start_def missing_key_branch_def
      generate_branch_def useEffect_loading_def Let_def split: option.splits)

lemma inv_submit:
  assumes "session_inv s"
  shows "session_inv (fst (submit_prompt key stored t1 t2 input s))"
  using assms inv_start
  by (simp add: submit_prompt_def ChatInput_handleSubmit_def)

lemma awaiting_split:
  assumes inv: "session_inv s" and mem: "lid \<in> set (awaiting_generate s)"
  shows "awaiting_generate s = [lid] \<and> loading s \<and> interval_on s \<and>
         lastGenerationResult s = None \<and>
         (\<exists>pre p post. messages s = pre @ p # post \<and> msg_id p = lid \<and>
            msg_loading p = Some True \<and>
            (\<forall>m\<in>set (pre @ post). msg_loading m \<noteq> Some True \<and> msg_id m \<noteq> lid) \<and>
            filter (\<lambda>m. msg_id m \<noteq> lid) (messages s) = pre @ post)"
proof -
  from inv have len: "length (awaiting_generate s) \<le> 1" by (simp add: session_inv_def)
  with mem have one: "awaiting_generate s = [lid]"
    by (cases "awaiting_generate s") auto
  with inv have flags: "loading s" "interval_on s" "lastGenerationResult s = None"
    by (auto simp: session_inv_def)
  from inv one have "map msg_id (filter (\<lambda>m. pending_id (msg_id m)) (messages s)) = [lid]"
    by (simp add: session_inv_def)
  from single_split[OF this] obtain pre p post where
    sp: "messages s = pre @ p # post" "msg_id p = lid" "pending_id lid"
        "\<forall>m\<in>set (pre @ post). \<not> pending_id (msg_id m)" by blast
  from inv have fl: "\<forall>m\<in>set (messages s). (msg_loading m = Some True) = pending_id (msg_id m)"
    by (simp add: session_inv_def)
  from fl sp have p: "msg_loading p = Some True" by simp
  from sp(3,4) have ne: "\<forall>m\<in>set (pre @ post). msg_id m \<noteq> lid" by auto
  from fl sp(1,4) have nl: "\<forall>m\<in>set (pre @ post). msg_loading m \<noteq> Some True" by auto
  from ne nl have others:
    "\<forall>m\<in>set (pre @ post). msg_loading m \<noteq> Some True \<and> msg_id m \<noteq> lid" by blast
  from filter_away[OF sp] have "filter (\<lambda>m. msg_id m \<noteq> lid) (messages s) = pre @ post" .
  with one flags sp p others show ?thesis by blast
qed

lemma settle_success:
  assumes "r_success r" "truthy (r_code r)"
  shows "handleSubmitPrompt_settle lid (Resolved r) t s =
     useEffect_loading (loading s)
       (s\<lparr>awaiting_generate := remove1 lid (awaiting_generate s),
           activities := (case r_activities r of None \<Rightarrow> activities s | Some a \<Rightarrow> a),
           messages := filter (\<lambda>m. msg_id m \<noteq> lid) (messages s) @
             [\<lparr>msg_id = ''success-'' @ toString (fst t), msg_role = Assistant,
               msg_content = success_content (template (r_code r)),
               msg_timestamp = snd t, msg_loading = None\<rparr>],
           lastGenerationResult := Some r,
           loading := False\<rparr>)"
  using assms
  by (simp add: handleSubmitPrompt_settle_def try_resolved_def Let_def split: option.splits)

lemma settle_failure:
  assumes "\<not> (r_success r \<and> truthy (r_code r))"
  shows "handleSubmitPrompt_settle lid (Resolved r) t s =
     useEffect_loading (loading s)
       (s\<lparr>awaiting_generate := remove1 lid (awaiting_generate s),
           activities := (case r_activities r of None \<Rightarrow> activities s | Some a \<Rightarrow> a),
           error := Some (string_or (r_error r) ''Failed to generate''),
           messages := filter (\<lambda>m. msg_id m \<noteq> lid) (messages s) @
             [\<lparr>msg_id = ''error-'' @ toString (fst t), msg_role = Assistant,
               msg_content = cross_mark @ '' '' @ string_or (r_error r) ''Failed to generate'',
               msg_timestamp = snd t, msg_loading = None\<rparr>],
           loading := False\<rparr>)"
  using assms
  by (auto simp: handleSubmitPrompt_settle_def try_resolved_def catch_generate_def Let_def
      split: option.splits)

lemma settle_rejected:
  "handleSubmitPrompt_settle lid (Rejected err) t s =
     useEffect_loading (loading s)
       (s\<lparr>awaiting_generate := remove1 lid (awaiting_generate s),
           error := Some (case err of ErrorObj m \<Rightarrow> m | OtherValue \<Rightarrow> ''An error occurred''),
           messages := filter (\<lambda>m. msg_id m \<noteq> lid) (messages s) @
             [\<lparr>msg_id = ''error-'' @ toString (fst t), msg_role = Assistant,
               msg_content = cross_mark @ '' '' @
                 (case err of ErrorObj m \<Rightarrow> m | OtherValue \<Rightarrow> ''An error occurred''),
               msg_timestamp = snd t, msg_loading = None\<rparr>],
           loading := False\<rparr>)"
  by (simp add: handleSubmitPrompt_settle_def catch_generate_def Let_def)

lemma inv_settle:
  assumes inv: "session_inv s" and mem: "lid \<in> set (awaiting_generate s)"
  shows "session_inv (handleSubmitPrompt_settle lid outcome t s)"
proof -
  from awaiting_split[OF inv mem] obtain pre p post where
    h: "awaiting_generate s = [lid]" "loading s" "interval_on s"
       "messages s = pre @ p # post"
       "\<forall>m\<in>set (pre @ post). msg_loading m \<noteq> Some True \<and> msg_id m \<noteq> lid"
       "filter (\<lambda>m. msg_id m \<noteq> lid) (messages s) = pre @ post"
       "lastGenerationResult s = None"
    by blast
  from inv h(4) have fl: "\<forall>m\<in>set (pre @ post). (msg_loading m = Some True) = pending_id (msg_id m)"
    by (auto simp: session_inv_def)
  with h(5) have none: "filter (\<lambda>m. pending_id (msg_id m)) (pre @ post) = []"
    by (auto simp: filter_empty_conv)
  show ?thesis
  proof (cases outcome)
    case (Resolved r)
    show ?thesis
    proof (cases "r_success r \<and> truthy (r_code r)")
      case True
      then show ?thesis using h(1,2,3,6,7) fl none unfolding Resolved
        by (simp add: settle_success session_inv_def useEffect_loading_def)
    next
      case False
      then show ?thesis using h(1,2,3,6,7) fl none unfolding Resolved
        by (simp add: settle_failure session_inv_def useEffect_loading_def)
    qed
  next
    case (Rejected err)
    then show ?thesis using h(1,2,3,6,7) fl none
      by (simp add: settle_rejected session_inv_def useEffect_loading_def)
  qed
qed

lemma inv_interval: "session_inv s \<Longrightarrow> session_inv (interval_fires s)"
  by (simp add: session_inv_def interval_fires_def)

lemma inv_poll: "session_inv s \<Longrightarrow> session_inv (pollActivities_settle response s)"
  by (simp add: session_inv_def pollActivities_settle_def Let_def split: settled.splits)

lemma inv_feedback_start: "session_inv s \<Longrightarrow> session_inv (handleSubmitFeedback_start works why s)"
  by (auto simp: session_inv_def handleSubmitFeedback_start_def split: option.splits)

lemma inv_feedback_settle:
  "session_inv s \<Longrightarrow> session_inv (handleSubmitFeedback_settle works outcome t s)"
  by (auto simp: session_inv_def handleSubmitFeedback_settle_def Let_def
      split: settled.splits option.splits)

lemma reachable_inv: "reachable s \<Longrightarrow> session_inv s"
proof (induction rule: reachable.induct)
  case start
  show ?case by (rule inv_initial)
next
  case (step s e)
  then show ?case
    by (cases e)
      (simp_all add: inv_submit inv_settle inv_interval inv_poll inv_feedback_start
        inv_feedback_settle)
qed

lemma toString_not_l [simp]: "toString n \<noteq> CHR ''l'' # x" "CHR ''l'' # x \<noteq> toString n"
  using toString_hd[of n] digit_not_l by (metis list.inject)+

lemma trim_example:
  "trim ''RSI scalper'' = ''RSI scalper''"
  "trim ''MACD cross'' = ''MACD cross''"
  "trim ''no plots'' = ''no plots''"
  "trim [CHR 0xC2, CHR 0xA0] = []"
  by (simp_all add: trim_def trimStart_def trimEnd_def white_space_def strip_leading.simps)

lemma example_submitted_eval:
  "example_submitted = \<lparr>messages =
       [\<lparr>msg_id = toString 1000, msg_role = User, msg_content = ''RSI scalper'',
          msg_timestamp = 1000, msg_loading = None\<rparr>,
        \<lparr>msg_id = example_lid, msg_role = Assistant,
          msg_content = ''Generating your Pine Script...'', msg_timestamp = 1002,
          msg_loading = Some True\<rparr>],
     loading = True, lastGenerationResult = None, feedbackSubmitted = False, error = None,
     activities = [], interval_on = True,
     requests = [GenerateScript ''RSI scalper'' ''nvapi-1'' 0.6 5],
     awaiting_generate = [example_lid], awaiting_activities = 0, awaiting_feedback = []\<rparr>"
  by (simp add: example_submitted_def example_lid_def submit_prompt_def ChatInput_handleSubmit_def
      trim_example handleSubmitPrompt_start_def generate_branch_def read_settings_def
      useEffect_loading_def initial_def Let_def)

lemma example_polling_eval:
  "example_polling = example_submitted\<lparr>requests := [GenerateScript ''RSI scalper'' ''nvapi-1'' 0.6 5, GetActivities], awaiting_activities := 1\<rparr>"
  by (simp add: example_polling_def interval_fires_def example_submitted_eval)

lemma reachable_example_polling: "reachable example_polling"
  unfolding example_polling_def example_submitted_def
  by (intro reachable.intros)

lemma example_lid_awaiting: "example_lid \<in> set (awaiting_generate example_polling)"
  by (simp add: example_polling_eval example_submitted_eval)

lemma outstanding_turn:
  assumes "reachable s" "lid \<in> set (awaiting_generate s)"
  shows "\<exists>pre p post. messages s = pre @ p # post \<and> msg_id p = lid \<and>
           msg_loading p = Some True \<and>
           filter (\<lambda>m. msg_loading m = Some True) (pre @ post) = [] \<and>
           filter (\<lambda>m. msg_id m \<noteq> lid) (messages s) = pre @ post"
proof -
  from awaiting_split[OF reachable_inv[OF assms(1)] assms(2)] obtain pre p post where
    h: "messages s = pre @ p # post" "msg_id p = lid" "msg_loading p = Some True"
       "\<forall>m\<in>set (pre @ post). msg_loading m \<noteq> Some True \<and> msg_id m \<noteq> lid"
       "filter (\<lambda>m. msg_id m \<noteq> lid) (messages s) = pre @ post"
    by blast
  from h(4) have "filter (\<lambda>m. msg_loading m = Some True) (pre @ post) = []"
    by (auto simp: filter_empty_conv)
  with h(1,2,3,5) show ?thesis by blast
qed

lemma outstanding_flags:
  assumes "reachable s" "lid \<in> set (awaiting_generate s)"
  shows "loading s" "interval_on s" "lastGenerationResult s = None"
  using awaiting_split[OF reachable_inv[OF assms(1)] assms(2)] by simp_all

lemma example_failure_awaiting_eval:
  "handleSubmitPrompt_settle example_lid (Resolved example_failure) t example_polling =
     example_polling\<lparr>awaiting_generate := [], error := Some ''syntax error'',
       messages := [\<lparr>msg_id = toString 1000, msg_role = User, msg_content = ''RSI scalper'',
          msg_timestamp = 1000, msg_loading = None\<rparr>,
          \<lparr>msg_id = ''error-'' @ toString (fst t), msg_role = Assistant,
            msg_content = cross_mark @ '' syntax error'', msg_timestamp = snd t,
            msg_loading = None\<rparr>],
       loading := False, interval_on := False\<rparr>"
  by (simp add: settle_failure example_failure_def example_polling_eval example_submitted_eval
      useEffect_loading_def example_lid_def)

lemma example_failed_eval:
  "example_failed = example_polling\<lparr>awaiting_generate := [], error := Some ''syntax error'',
       messages := [\<lparr>msg_id = toString 1000, msg_role = User, msg_content = ''RSI scalper'',
          msg_timestamp = 1000, msg_loading = None\<rparr>,
          \<lparr>msg_id = ''error-'' @ toString 2000, msg_role = Assistant,
            msg_content = cross_mark @ '' syntax error'', msg_timestamp = 2001,
            msg_loading = None\<rparr>],
       loading := False, interval_on := False\<rparr>"
  using example_lid_awaiting
  by (simp add: example_failed_def example_failure_awaiting_eval)

lemma example_done_eval:
  "example_done = example_polling\<lparr>awaiting_generate := [],
       messages := [\<lparr>msg_id = toString 1000, msg_role = User, msg_content = ''RSI scalper'',
          msg_timestamp = 1000, msg_loading = None\<rparr>,
          \<lparr>msg_id = ''success-'' @ toString 2000, msg_role = Assistant,
            msg_content = success_content ''strategy(...)'', msg_timestamp = 2001,
            msg_loading = None\<rparr>],
       lastGenerationResult := Some example_success,
       loading := False, interval_on := False\<rparr>"
proof -
  have ok: "r_success example_success" "truthy (r_code example_success)"
    by (simp_all add: example_success_def)
  have "r_activities example_success = None" "r_code example_success = Some ''strategy(...)''"
    by (simp_all add: example_success_def)
  then show ?thesis using example_lid_awaiting
    by (simp add: example_done_def settle_success[OF ok] example_polling_eval
        example_submitted_eval useEffect_loading_def example_lid_def)
qed

lemma reachable_example_done: "reachable example_done"
  unfolding example_done_def by (intro reachable.step reachable_example_polling)









section \<open>Properties\<close>

text \<open>
  C1. A call of \<^verbatim>\<open>handleSubmitPrompt\<close> while the configured API key is the empty string
  issues no request to the transport client and does not start the poller: \<^verbatim>\<open>loading\<close>
  and the interval are left as they were and no promise is left pending. It appends
  exactly one user turn followed by exactly one assistant turn that carries the fixed
  configuration-error message, sets the last error to that message and leaves the
  current result unset.
\<close>

theorem C1_empty_api_key:
  "let s' = handleSubmitPrompt_start (Some []) stored prompt t1 t2 s in
     requests s' = requests s \<and>
     awaiting_generate s' = awaiting_generate s \<and>
     awaiting_activities s' = awaiting_activities s \<and>
     awaiting_feedback s' = awaiting_feedback s \<and>
     interval_on s' = interval_on s \<and>
     loading s' = loading s \<and>
     messages s' = messages s @
       [\<lparr>msg_id = toString (fst t1), msg_role = User, msg_content = prompt,
          msg_timestamp = snd t1, msg_loading = None\<rparr>,
        \<lparr>msg_id = ''error-'' @ toString (fst t2), msg_role = Assistant,
          msg_content = ''Please add your API key in Settings to start.'',
          msg_timestamp = snd t2, msg_loading = None\<rparr>] \<and>
     error s' = Some ''Please add your API key in Settings to start.'' \<and>
     lastGenerationResult s' = None"
  by (simp add: handleSubmitPrompt_start_def missing_key_branch_def useEffect_loading_def
      config_error_text_def Let_def)

theorem C1_empty_api_key_witness:
  "requests (handleSubmitPrompt_start (Some []) None ''RSI scalper'' (1000, 1000) (1001, 1002)
      initial) = [] \<and>
   length (messages (handleSubmitPrompt_start (Some []) None ''RSI scalper'' (1000, 1000)
      (1001, 1002) initial)) = 2 \<and>
   error (handleSubmitPrompt_start (Some []) None ''RSI scalper'' (1000, 1000) (1001, 1002)
      initial) = Some ''Please add your API key in Settings to start.'' \<and>
   lastGenerationResult (handleSubmitPrompt_start (Some []) None ''RSI scalper'' (1000, 1000)
      (1001, 1002) initial) = None"
  using C1_empty_api_key[of None "''RSI scalper''" "(1000, 1000)" "(1001, 1002)" initial]
  by (simp add: Let_def initial_def)




text \<open>
  C3. In every state of a run, when an outstanding \<^verbatim>\<open>generateScript\<close> promise settles
  unsuccessfully (it resolves with \<^verbatim>\<open>success: false\<close>, or it rejects): the placeholder
  turn of that call is removed, exactly one assistant turn is appended whose content is
  the cross mark followed by the failure message, the last error is that message,
  \<^verbatim>\<open>loading\<close> is false and the current result is still unset. The failure message is the
  message of the thrown \<^verbatim>\<open>Error\<close> (\<^verbatim>\<open>An error occurred\<close> for a thrown value that is not an
  \<^verbatim>\<open>Error\<close>), and for a resolved response its \<^verbatim>\<open>error\<close> member, or \<^verbatim>\<open>Failed to generate\<close>
  when that is missing or empty.
\<close>

theorem C3_failure:
  assumes "reachable s" and "lid \<in> set (awaiting_generate s)"
    and "settles_unsuccessfully outcome"
  shows "let s' = handleSubmitPrompt_settle lid outcome t s;
             failure = (case outcome of
                 Rejected err \<Rightarrow> (case err of ErrorObj m \<Rightarrow> m | OtherValue \<Rightarrow> ''An error occurred'')
               | Resolved r \<Rightarrow> (case r_error r of None \<Rightarrow> ''Failed to generate''
                   | Some e \<Rightarrow> if e = [] then ''Failed to generate'' else e))
         in (\<exists>pre p post.
               messages s = pre @ p # post \<and> msg_id p = lid \<and> msg_loading p = Some True \<and>
               filter (\<lambda>m. msg_loading m = Some True) (pre @ post) = [] \<and>
               messages s' = pre @ post @
                 [\<lparr>msg_id = ''error-'' @ toString (fst t), msg_role = Assistant,
                    msg_content = cross_mark @ '' '' @ failure, msg_timestamp = snd t,
                    msg_loading = None\<rparr>]) \<and>
            error s' = Some failure \<and> loading s' = False \<and> lastGenerationResult s' = None"
proof -
  from outstanding_turn[OF assms(1,2)] obtain pre p post where
    h: "messages s = pre @ p # post" "msg_id p = lid" "msg_loading p = Some True"
       "filter (\<lambda>m. msg_loading m = Some True) (pre @ post) = []"
       "filter (\<lambda>m. msg_id m \<noteq> lid) (messages s) = pre @ post"
    by blast
  note none = outstanding_flags(3)[OF assms(1,2)]
  show ?thesis
  proof (cases outcome)
    case (Resolved r)
    with assms(3) have bad: "\<not> (r_success r \<and> truthy (r_code r))" by simp
    have so: "string_or (r_error r) ''Failed to generate'' =
        (case r_error r of None \<Rightarrow> ''Failed to generate''
         | Some e \<Rightarrow> if e = [] then ''Failed to generate'' else e)"
      by (cases "r_error r") simp_all
    have "messages (handleSubmitPrompt_settle lid (Resolved r) t s) = pre @ post @
        [\<lparr>msg_id = ''error-'' @ toString (fst t), msg_role = Assistant,
           msg_content = cross_mark @ '' '' @ string_or (r_error r) ''Failed to generate'',
           msg_timestamp = snd t, msg_loading = None\<rparr>]"
      and "error (handleSubmitPrompt_settle lid (Resolved r) t s) =
        Some (string_or (r_error r) ''Failed to generate'')"
      and "loading (handleSubmitPrompt_settle lid (Resolved r) t s) = False"
      and "lastGenerationResult (handleSubmitPrompt_settle lid (Resolved r) t s) = None"
      using h(5) none by (simp_all add: settle_failure[OF bad] useEffect_loading_def)
    with h(1,2,3,4) show ?thesis unfolding Resolved Let_def so by (simp only: settled.case) blast
  next
    case (Rejected err)
    have "messages (handleSubmitPrompt_settle lid (Rejected err) t s) = pre @ post @
        [\<lparr>msg_id = ''error-'' @ toString (fst t), msg_role = Assistant,
           msg_content = cross_mark @ '' '' @
             (case err of ErrorObj m \<Rightarrow> m | OtherValue \<Rightarrow> ''An error occurred''),
           msg_timestamp = snd t, msg_loading = None\<rparr>]"
      and "error (handleSubmitPrompt_settle lid (Rejected err) t s) =
        Some (case err of ErrorObj m \<Rightarrow> m | OtherValue \<Rightarrow> ''An error occurred'')"
      and "loading (handleSubmitPrompt_settle lid (Rejected err) t s) = False"
      and "lastGenerationResult (handleSubmitPrompt_settle lid (Rejected err) t s) = None"
      using h(5) none by (simp_all add: settle_rejected useEffect_loading_def)
    with h(1,2,3,4) show ?thesis unfolding Rejected Let_def by (simp only: settled.case) blast
  qed
qed

theorem C3_failure_witness:
  "reachable example_polling \<and> example_lid \<in> set (awaiting_generate example_polling) \<and>
   settles_unsuccessfully (Rejected (ErrorObj ''Network Error'')) \<and>
   (let s' = handleSubmitPrompt_settle example_lid (Rejected (ErrorObj ''Network Error''))
               (2000, 2001) example_polling
    in messages s' =
         [\<lparr>msg_id = toString 1000, msg_role = User, msg_content = ''RSI scalper'',
            msg_timestamp = 1000, msg_loading = None\<rparr>,
          \<lparr>msg_id = ''error-'' @ toString 2000, msg_role = Assistant,
            msg_content = cross_mark @ '' Network Error'', msg_timestamp = 2001,
            msg_loading = None\<rparr>] \<and>
       error s' = Some ''Network Error'' \<and> loading s' = False \<and>
       lastGenerationResult s' = None)"
proof -
  have u: "settles_unsuccessfully (Rejected (ErrorObj ''Network Error''))" by simp
  have m: "messages (handleSubmitPrompt_settle example_lid (Rejected (ErrorObj ''Network Error''))
               (2000, 2001) example_polling) =
         [\<lparr>msg_id = toString 1000, msg_role = User, msg_content = ''RSI scalper'',
            msg_timestamp = 1000, msg_loading = None\<rparr>,
          \<lparr>msg_id = ''error-'' @ toString 2000, msg_role = Assistant,
            msg_content = cross_mark @ '' Network Error'', msg_timestamp = 2001,
            msg_loading = None\<rparr>]"
    by (simp add: settle_rejected example_polling_eval example_submitted_eval
        useEffect_loading_def example_lid_def)
  from C3_failure[OF reachable_example_polling example_lid_awaiting u, of "(2000, 2001)"]
  have "error (handleSubmitPrompt_settle example_lid (Rejected (ErrorObj ''Network Error''))
               (2000, 2001) example_polling) = Some ''Network Error''"
    and "loading (handleSubmitPrompt_settle example_lid (Rejected (ErrorObj ''Network Error''))
               (2000, 2001) example_polling) = False"
    and "lastGenerationResult (handleSubmitPrompt_settle example_lid
               (Rejected (ErrorObj ''Network Error'')) (2000, 2001) example_polling) = None"
    by (simp_all add: Let_def)
  with m u reachable_example_polling example_lid_awaiting show ?thesis
    by (simp add: Let_def)
qed

text \<open>
  C4. One execution of \<^verbatim>\<open>handleSubmitPrompt\<close> sets \<^verbatim>\<open>loading\<close> to true exactly when it issues
  a \<^verbatim>\<open>generateScript\<close> request: with a truthy API key it does both, otherwise it issues
  no request and leaves \<^verbatim>\<open>loading\<close> as it was. However the promise settles (resolved
  with or without success, or rejected), \<^verbatim>\<open>loading\<close> is false afterwards.
\<close>

theorem C4_busy:
  "(let s1 = handleSubmitPrompt_start key stored prompt t1 t2 s in
      if truthy key
      then loading s1 = True \<and> (\<exists>k T M. requests s1 = requests s @ [GenerateScript prompt k T M])
      else loading s1 = loading s \<and> requests s1 = requests s) \<and>
   loading (handleSubmitPrompt_settle lid outcome t s) = False"
proof -
  have "loading (handleSubmitPrompt_settle lid outcome t s) = False"
    by (simp add: handleSubmitPrompt_settle_def useEffect_loading_def Let_def)
  moreover have "let s1 = handleSubmitPrompt_start key stored prompt t1 t2 s in
      if truthy key
      then loading s1 = True \<and> (\<exists>k T M. requests s1 = requests s @ [GenerateScript prompt k T M])
      else loading s1 = loading s \<and> requests s1 = requests s"
    by (cases key)
      (simp_all add: handleSubmitPrompt_start_def missing_key_branch_def generate_branch_def
        useEffect_loading_def Let_def)
  ultimately show ?thesis by simp
qed

theorem C4_busy_witness:
  "truthy (Some ''nvapi-1'') \<and>
   loading (handleSubmitPrompt_start (Some ''nvapi-1'') None ''RSI scalper'' (1000, 1000)
      (1001, 1002) initial) = True \<and>
   loading (handleSubmitPrompt_start (Some []) None ''RSI scalper'' (1000, 1000)
      (1001, 1002) initial) = False \<and>
   requests (handleSubmitPrompt_start (Some []) None ''RSI scalper'' (1000, 1000)
      (1001, 1002) initial) = [] \<and>
   loading (handleSubmitPrompt_settle example_lid (Rejected OtherValue) (2000, 2001)
      example_polling) = False"
  using C4_busy[of "Some ''nvapi-1''" None "''RSI scalper''" "(1000, 1000)" "(1001, 1002)" initial
      example_lid "Rejected OtherValue" "(2000, 2001)"]
    C4_busy[of "Some []" None "''RSI scalper''" "(1000, 1000)" "(1001, 1002)" initial
      example_lid "Rejected OtherValue" "(2000, 2001)"]
    C4_busy[of "Some []" None "''RSI scalper''" "(1000, 1000)" "(1001, 1002)" example_polling
      example_lid "Rejected OtherValue" "(2000, 2001)"]
  by (simp add: Let_def initial_def)

text \<open>
  C5 (amended). In every state of a run, once an outstanding \<^verbatim>\<open>generateScript\<close> promise
  has settled, in whatever way, \<^verbatim>\<open>loading\<close> is false and the polling interval is cleared,
  so a firing of the interval issues no further \<^verbatim>\<open>getActivities\<close> request. The
  \<^verbatim>\<open>getActivities\<close> promises that were pending stay pending, and nothing discards them:
  when such a promise resolves afterwards its activities are written to the store
  (a rejection writes nothing).
\<close>

theorem C5_poller_stopped:
  assumes "reachable s" and "lid \<in> set (awaiting_generate s)"
  shows "let s' = handleSubmitPrompt_settle lid outcome t s in
     loading s' = False \<and> interval_on s' = False \<and> interval_fires s' = s' \<and>
     awaiting_activities s' = awaiting_activities s \<and>
     activities (pollActivities_settle (Resolved acts) s') =
       (if awaiting_activities s = 0 then activities s' else acts) \<and>
     activities (pollActivities_settle (Rejected err) s') = activities s'"
proof -
  note l = outstanding_flags(1)[OF assms]
  have a: "loading (handleSubmitPrompt_settle lid outcome t s) = False"
    and b: "interval_on (handleSubmitPrompt_settle lid outcome t s) = False"
    and c: "awaiting_activities (handleSubmitPrompt_settle lid outcome t s) =
              awaiting_activities s"
    using l
    by (cases outcome;
        simp add: handleSubmitPrompt_settle_def try_resolved_def catch_generate_def
          useEffect_loading_def Let_def split: option.splits)+
  from b have d: "interval_fires (handleSubmitPrompt_settle lid outcome t s) =
      handleSubmitPrompt_settle lid outcome t s"
    by (simp add: interval_fires_def)
  from c have e: "activities (pollActivities_settle (Resolved acts)
        (handleSubmitPrompt_settle lid outcome t s)) =
       (if awaiting_activities s = 0 then activities (handleSubmitPrompt_settle lid outcome t s)
        else acts)"
    and f: "activities (pollActivities_settle (Rejected err)
        (handleSubmitPrompt_settle lid outcome t s)) =
        activities (handleSubmitPrompt_settle lid outcome t s)"
    by (simp_all add: pollActivities_settle_def)
  from a b c d e f show ?thesis by (simp add: Let_def)
qed

theorem C5_poller_stopped_witness:
  "reachable example_polling \<and> example_lid \<in> set (awaiting_generate example_polling) \<and>
   awaiting_activities example_polling \<noteq> 0 \<and>
   (let s' = handleSubmitPrompt_settle example_lid (Resolved example_failure) (2000, 2001)
               example_polling in
     loading s' = False \<and> interval_on s' = False \<and> interval_fires s' = s' \<and>
     activities (pollActivities_settle (Resolved [example_activity]) s') = [example_activity])"
proof -
  have n: "awaiting_activities example_polling \<noteq> 0"
    by (simp add: example_polling_eval)
  from C5_poller_stopped[OF reachable_example_polling example_lid_awaiting,
      of "Resolved example_failure" "(2000, 2001)" "[example_activity]"] n
    reachable_example_polling example_lid_awaiting
  show ?thesis by (simp add: Let_def)
qed

text \<open>
  A late poll response is not discarded. The prompt is submitted, the interval fires
  once, the generation fails; at that point \<^verbatim>\<open>loading\<close> is false, the interval is cleared
  and the activities are empty. The pending \<^verbatim>\<open>getActivities\<close> promise then resolves, and
  its snapshot is written to the store.
\<close>

theorem C5_counterexample:
  "loading example_failed = False \<and> interval_on example_failed = False \<and>
   activities example_failed = [] \<and>
   activities (fire (ActivitiesSettle (Resolved [example_activity])) example_failed) =
     [example_activity]"
  by (simp add: example_failed_eval example_polling_eval example_submitted_eval
      pollActivities_settle_def)

text \<open>
  C6. While \<^verbatim>\<open>loading\<close> is true, submitting the input box does nothing:
  \<^verbatim>\<open>ChatInput.handleSubmit\<close> does not call \<^verbatim>\<open>handleSubmitPrompt\<close>, so the session (the
  conversation, the request log, the current result, the activities, the last error,
  \<^verbatim>\<open>feedbackSubmitted\<close>) and the text of the box are unchanged.
\<close>

theorem C6_busy_rejects:
  assumes "loading s"
  shows "submit_prompt key stored t1 t2 input s = (s, input) \<and>
         fire (UserSubmits key stored t1 t2 input) s = s"
  using assms by (simp add: submit_prompt_def ChatInput_handleSubmit_def)

theorem C6_busy_rejects_witness:
  "loading example_polling \<and>
   submit_prompt (Some ''nvapi-1'') None (3000, 3000) (3001, 3001) ''MACD cross'' example_polling =
     (example_polling, ''MACD cross'') \<and>
   fire (UserSubmits (Some ''nvapi-1'') None (3000, 3000) (3001, 3001) ''MACD cross'')
     example_polling = example_polling"
proof -
  have l: "loading example_polling"
    by (simp add: example_polling_eval example_submitted_eval)
  from C6_busy_rejects[OF l] l show ?thesis by simp
qed

text \<open>
  C7. In every state of a run, negative feedback reaches the handler only through the
  detail form of \<^verbatim>\<open>FeedbackForm\<close>, whose reason is always a string. While no reason has
  been collected (the trimmed reason is empty) submitting the detail form changes
  nothing: no request is issued. With the form on the page, its detail part shown and a
  reason collected, submitting it issues exactly one \<^verbatim>\<open>submitFeedback\<close> request, for the
  code of the current result, with \<^verbatim>\<open>works = false\<close> and that reason. The one call the
  form makes without a reason is the thumbs-up one, and its request, if any, has
  \<^verbatim>\<open>works = true\<close>.
\<close>

theorem C7_feedback_reason:
  assumes "reachable s"
  shows "(trim (reason f) = [] \<longrightarrow> feedback_detail f s = (s, f)) \<and>
         (FeedbackForm_rendered s \<and> showDetailForm f \<and> trim (reason f) \<noteq> [] \<longrightarrow>
            (\<exists>r c. lastGenerationResult s = Some r \<and> r_code r = Some c \<and>
               requests (fst (feedback_detail f s)) =
                 requests s @ [SubmitFeedback c False (Some (reason f))])) \<and>
         (requests (fst (handlePositiveFeedback handleSubmitFeedback_start f s)) = requests s \<or>
          (\<exists>c. requests (fst (handlePositiveFeedback handleSubmitFeedback_start f s)) =
             requests s @ [SubmitFeedback c True None]))"
proof (intro conjI impI)
  assume "trim (reason f) = []"
  then show "feedback_detail f s = (s, f)"
    by (simp add: feedback_detail_def submit_detail_def submit_button_disabled_def)
next
  assume h: "FeedbackForm_rendered s \<and> showDetailForm f \<and> trim (reason f) \<noteq> []"
  then obtain r where r: "lastGenerationResult s = Some r"
    by (auto simp: FeedbackForm_rendered_def)
  note inv = reachable_inv[OF assms]
  from inv r have l: "\<not> loading s" and ok: "truthy (r_code r)"
    by (auto simp: session_inv_def)
  from ok obtain c where c: "r_code r = Some c" "c \<noteq> []" by (cases "r_code r") auto
  have "requests (fst (feedback_detail f s)) =
      requests s @ [SubmitFeedback c False (Some (reason f))]"
    using h r l c
    by (simp add: feedback_detail_def submit_detail_def submit_button_disabled_def
        handleDetailedSubmit_def handleSubmitFeedback_start_def feedback_code_def)
  with r c(1) show "\<exists>r c. lastGenerationResult s = Some r \<and> r_code r = Some c \<and>
      requests (fst (feedback_detail f s)) =
        requests s @ [SubmitFeedback c False (Some (reason f))]"
    by blast
next
  show "requests (fst (handlePositiveFeedback handleSubmitFeedback_start f s)) = requests s \<or>
      (\<exists>c. requests (fst (handlePositiveFeedback handleSubmitFeedback_start f s)) =
         requests s @ [SubmitFeedback c True None])"
    by (simp add: handlePositiveFeedback_def handleSubmitFeedback_start_def
        split: option.splits)
qed

theorem C7_feedback_reason_witness:
  "reachable example_done \<and>
   trim (reason \<lparr>showDetailForm = True, reason = [CHR 0xC2, CHR 0xA0]\<rparr>) = [] \<and>
   feedback_detail \<lparr>showDetailForm = True, reason = [CHR 0xC2, CHR 0xA0]\<rparr> example_done =
     (example_done, \<lparr>showDetailForm = True, reason = [CHR 0xC2, CHR 0xA0]\<rparr>) \<and>
   FeedbackForm_rendered example_done \<and>
   showDetailForm \<lparr>showDetailForm = True, reason = ''no plots''\<rparr> \<and>
   trim (reason \<lparr>showDetailForm = True, reason = ''no plots''\<rparr>) \<noteq> [] \<and>
   requests (fst (feedback_detail \<lparr>showDetailForm = True, reason = ''no plots''\<rparr> example_done)) =
     requests example_done @ [SubmitFeedback ''strategy(...)'' False (Some ''no plots'')]"
proof -
  have a: "lastGenerationResult example_done = Some example_success"
    "\<not> feedbackSubmitted example_done"
    by (simp_all add: example_done_eval example_polling_eval example_submitted_eval)
  then have b: "FeedbackForm_rendered example_done" by (simp add: FeedbackForm_rendered_def)
  have c: "r_code example_success = Some ''strategy(...)''" by (simp add: example_success_def)
  have d: "trim (reason \<lparr>showDetailForm = True, reason = [CHR 0xC2, CHR 0xA0]\<rparr>) = []"
    "trim (reason \<lparr>showDetailForm = True, reason = ''no plots''\<rparr>) \<noteq> []"
    by (simp_all add: trim_example)
  from C7_feedback_reason[OF reachable_example_done,
      of "\<lparr>showDetailForm = True, reason = [CHR 0xC2, CHR 0xA0]\<rparr>"]
    C7_feedback_reason[OF reachable_example_done,
      of "\<lparr>showDetailForm = True, reason = ''no plots''\<rparr>"]
    a b c d reachable_example_done
  show ?thesis by auto
qed

text \<open>
  C8. \<^verbatim>\<open>handleSubmitFeedback\<close> called while the current result is set and carries non-empty
  code issues one \<^verbatim>\<open>submitFeedback\<close> request. If it resolves, \<^verbatim>\<open>feedbackSubmitted\<close>
  becomes true and exactly one acknowledgement turn is appended. If it rejects, the
  last error is set to the failure message, \<^verbatim>\<open>feedbackSubmitted\<close> keeps its value (so it
  stays false) and the conversation is unchanged.
\<close>

theorem C8_feedback:
  assumes "lastGenerationResult s = Some r" and "r_code r = Some c" and "c \<noteq> []"
  shows "let ok = handleSubmitFeedback works why (Resolved u) t s;
             ko = handleSubmitFeedback works why (Rejected err) t s
         in feedbackSubmitted ok = True \<and>
            messages ok = messages s @
              [\<lparr>msg_id = ''feedback-'' @ toString (fst t), msg_role = Assistant,
                 msg_content = (if works then sparkles @ '' Thanks for the feedback!''
                    else light_bulb @ '' Thank you for reporting this.''),
                 msg_timestamp = snd t, msg_loading = None\<rparr>] \<and>
            requests ok = requests s @ [SubmitFeedback c works why] \<and>
            error ko = Some (case err of ErrorObj m \<Rightarrow> m
                              | OtherValue \<Rightarrow> ''Failed to submit feedback'') \<and>
            feedbackSubmitted ko = feedbackSubmitted s \<and>
            messages ko = messages s \<and>
            requests ko = requests s @ [SubmitFeedback c works why]"
  using assms
  by (simp add: handleSubmitFeedback_def handleSubmitFeedback_start_def
      handleSubmitFeedback_settle_def feedback_code_def Let_def)

theorem C8_feedback_witness:
  "lastGenerationResult example_done = Some example_success \<and>
   r_code example_success = Some ''strategy(...)'' \<and> ''strategy(...)'' \<noteq> [] \<and>
   feedbackSubmitted (handleSubmitFeedback True None (Resolved ()) (3000, 3001) example_done) \<and>
   length (messages (handleSubmitFeedback True None (Resolved ()) (3000, 3001) example_done)) = 3 \<and>
   error (handleSubmitFeedback True None (Rejected (ErrorObj ''timeout'')) (3000, 3001)
      example_done) = Some ''timeout'' \<and>
   \<not> feedbackSubmitted (handleSubmitFeedback True None (Rejected (ErrorObj ''timeout''))
      (3000, 3001) example_done) \<and>
   messages (handleSubmitFeedback True None (Rejected (ErrorObj ''timeout'')) (3000, 3001)
      example_done) = messages example_done"
proof -
  have a: "lastGenerationResult example_done = Some example_success"
    by (simp add: example_done_eval)
  have b: "r_code example_success = Some ''strategy(...)''" by (simp add: example_success_def)
  have c: "''strategy(...)'' \<noteq> []" by simp
  have d: "length (messages example_done) = 2" "\<not> feedbackSubmitted example_done"
    by (simp_all add: example_done_eval example_polling_eval example_submitted_eval)
  from C8_feedback[OF a b c, of True None "()" "(3000, 3001)" "ErrorObj ''timeout''"] a b d
  show ?thesis by (simp add: Let_def)
qed

text \<open>
  C9 (amended). In every state of a run, when an outstanding \<^verbatim>\<open>generateScript\<close> promise
  resolves with \<^verbatim>\<open>success: true\<close> but a missing or empty \<^verbatim>\<open>code\<close>: the placeholder turn is
  removed, exactly one assistant turn is appended whose content is the cross mark
  followed by the message, the last error is that message and the current result is
  still unset. The message is the response's \<^verbatim>\<open>error\<close> member when that is present and
  not empty; when it is missing or the empty string the message is
  \<^verbatim>\<open>Failed to generate\<close>.
\<close>

theorem C9_no_code:
  assumes "reachable s" and "lid \<in> set (awaiting_generate s)"
    and "r_success r" and "r_code r = None \<or> r_code r = Some []"
  shows "let s' = handleSubmitPrompt_settle lid (Resolved r) t s;
             failure = (case r_error r of None \<Rightarrow> ''Failed to generate''
                   | Some e \<Rightarrow> if e = [] then ''Failed to generate'' else e)
         in (\<exists>pre p post.
               messages s = pre @ p # post \<and> msg_id p = lid \<and> msg_loading p = Some True \<and>
               filter (\<lambda>m. msg_loading m = Some True) (pre @ post) = [] \<and>
               messages s' = pre @ post @
                 [\<lparr>msg_id = ''error-'' @ toString (fst t), msg_role = Assistant,
                    msg_content = cross_mark @ '' '' @ failure, msg_timestamp = snd t,
                    msg_loading = None\<rparr>]) \<and>
            error s' = Some failure \<and> lastGenerationResult s' = None"
proof -
  from outstanding_turn[OF assms(1,2)] obtain pre p post where
    h: "messages s = pre @ p # post" "msg_id p = lid" "msg_loading p = Some True"
       "filter (\<lambda>m. msg_loading m = Some True) (pre @ post) = []"
       "filter (\<lambda>m. msg_id m \<noteq> lid) (messages s) = pre @ post"
    by blast
  note none = outstanding_flags(3)[OF assms(1,2)]
  from assms(4) have bad: "\<not> (r_success r \<and> truthy (r_code r))" by auto
  have so: "string_or (r_error r) ''Failed to generate'' =
      (case r_error r of None \<Rightarrow> ''Failed to generate''
       | Some e \<Rightarrow> if e = [] then ''Failed to generate'' else e)"
    by (cases "r_error r") simp_all
  have "messages (handleSubmitPrompt_settle lid (Resolved r) t s) = pre @ post @
      [\<lparr>msg_id = ''error-'' @ toString (fst t), msg_role = Assistant,
         msg_content = cross_mark @ '' '' @ string_or (r_error r) ''Failed to generate'',
         msg_timestamp = snd t, msg_loading = None\<rparr>]"
    and "error (handleSubmitPrompt_settle lid (Resolved r) t s) =
      Some (string_or (r_error r) ''Failed to generate'')"
    and "lastGenerationResult (handleSubmitPrompt_settle lid (Resolved r) t s) = None"
    using h(5) none by (simp_all add: settle_failure[OF bad] useEffect_loading_def)
  with h(1,2,3,4) show ?thesis unfolding Let_def so by blast
qed

theorem C9_no_code_witness:
  "reachable example_polling \<and> example_lid \<in> set (awaiting_generate example_polling) \<and>
   r_success example_no_code \<and>
   (r_code example_no_code = None \<or> r_code example_no_code = Some []) \<and>
   (let s' = handleSubmitPrompt_settle example_lid (Resolved example_no_code) (2000, 2001)
               example_polling
    in error s' = Some ''Failed to generate'' \<and> lastGenerationResult s' = None)"
proof -
  have a: "r_success example_no_code" by (simp add: example_no_code_def)
  have b: "r_code example_no_code = None \<or> r_code example_no_code = Some []"
    by (simp add: example_no_code_def)
  have e: "r_error example_no_code = Some []" by (simp add: example_no_code_def)
  from C9_no_code[OF reachable_example_polling example_lid_awaiting a b, of "(2000, 2001)"]
  have "error (handleSubmitPrompt_settle example_lid (Resolved example_no_code) (2000, 2001)
               example_polling) = Some ''Failed to generate''"
    and "lastGenerationResult (handleSubmitPrompt_settle example_lid (Resolved example_no_code)
               (2000, 2001) example_polling) = None"
    by (simp_all add: Let_def e)
  with a b reachable_example_polling example_lid_awaiting show ?thesis
    by (simp add: Let_def)
qed

text \<open>
  A response \<^verbatim>\<open>{success: true, error: ''}\<close> without code carries an \<^verbatim>\<open>error\<close> member, yet
  the message shown and stored is the fallback text, not that member.
\<close>

theorem C9_counterexample:
  "r_success example_no_code \<and> r_code example_no_code = None \<and>
   r_error example_no_code = Some [] \<and>
   error (handleSubmitPrompt_settle example_lid (Resolved example_no_code) (2000, 2001)
            example_polling) = Some ''Failed to generate'' \<and>
   error (handleSubmitPrompt_settle example_lid (Resolved example_no_code) (2000, 2001)
            example_polling) \<noteq> r_error example_no_code \<and>
   msg_content (last (messages (handleSubmitPrompt_settle example_lid (Resolved example_no_code)
            (2000, 2001) example_polling))) = cross_mark @ '' Failed to generate''"
  by (simp add: settle_failure example_no_code_def useEffect_loading_def)

text \<open>
  C10. A call of \<^verbatim>\<open>handleSubmitPrompt\<close> with a non-empty API key issues exactly one
  \<^verbatim>\<open>generateScript\<close> request, with the prompt and the key; its temperature is the stored
  \<^verbatim>\<open>temperature\<close>, or 0.6 when that is missing or 0; its attempt limit is the stored
  \<^verbatim>\<open>maxAttempts\<close>, or 5 when that is missing or 0. Each default is chosen on its own, and
  both apply when nothing is stored.
\<close>

theorem C10_defaults:
  assumes "k \<noteq> []"
  shows "requests (handleSubmitPrompt_start (Some k) stored prompt t1 t2 s) =
     requests s @
       [GenerateScript prompt k
          (case temperature (read_settings stored) of None \<Rightarrow> 0.6
           | Some x \<Rightarrow> if x = 0 then 0.6 else x)
          (case maxAttempts (read_settings stored) of None \<Rightarrow> 5
           | Some x \<Rightarrow> if x = 0 then 5 else x)]"
proof -
  have n: "number_or v d = (case v of None \<Rightarrow> d | Some x \<Rightarrow> if x = 0 then d else x)" for v d
    by (cases v) simp_all
  show ?thesis using assms
    by (simp add: handleSubmitPrompt_start_def generate_branch_def useEffect_loading_def
        Let_def n split: option.splits)
qed

theorem C10_defaults_witness:
  "''nvapi-1'' \<noteq> [] \<and>
   requests (handleSubmitPrompt_start (Some ''nvapi-1'') None ''RSI scalper'' (1000, 1000)
      (1001, 1002) initial) = [GenerateScript ''RSI scalper'' ''nvapi-1'' 0.6 5] \<and>
   requests (handleSubmitPrompt_start (Some ''nvapi-1'')
      (Some \<lparr>apiKey = Some ''nvapi-1'', temperature = Some 0, maxAttempts = None\<rparr>)
      ''RSI scalper'' (1000, 1000) (1001, 1002) initial) =
        [GenerateScript ''RSI scalper'' ''nvapi-1'' 0.6 5] \<and>
   requests (handleSubmitPrompt_start (Some ''nvapi-1'')
      (Some \<lparr>apiKey = Some ''nvapi-1'', temperature = Some 0.3, maxAttempts = Some 0\<rparr>)
      ''RSI scalper'' (1000, 1000) (1001, 1002) initial) =
        [GenerateScript ''RSI scalper'' ''nvapi-1'' 0.3 5]"
proof -
  have k: "''nvapi-1'' \<noteq> []" by simp
  from C10_defaults[OF k, of None "''RSI scalper''" "(1000, 1000)" "(1001, 1002)" initial]
    C10_defaults[OF k,
      of "Some \<lparr>apiKey = Some ''nvapi-1'', temperature = Some 0, maxAttempts = None\<rparr>"
        "''RSI scalper''" "(1000, 1000)" "(1001, 1002)" initial]
    C10_defaults[OF k,
      of "Some \<lparr>apiKey = Some ''nvapi-1'', temperature = Some 0.3, maxAttempts = Some 0\<rparr>"
        "''RSI scalper''" "(1000, 1000)" "(1001, 1002)" initial]
  show ?thesis by (simp add: read_settings_def initial_def)
qed

end
